theory Spec2Isabelle
  imports Main "HOL-Library.Word"
begin

section \<open>The custom video renderer: stream sink and media sink\<close>

text \<open>
  A shallow embedding of \<^verbatim>\<open>CustomVideoRenderer.cpp\<close> (the last and most complete of the
  snapshots in that file: the classes \<^verbatim>\<open>CustomVideoStreamSink\<close> and
  \<^verbatim>\<open>CustomVideoRenderer\<close> with the work-queue polling loop).

  Conventions of the embedding:
  \<^item> a method is a function from the object's state (and its arguments) to the returned
    \<^verbatim>\<open>HRESULT\<close> and the new state;
  \<^item> a method that dereferences a pointer the code does not test returns an \<open>option\<close>:
    \<open>None\<close> is the access violation of a null dereference;
  \<^item> a \<^verbatim>\<open>ComPtr\<close> member is an \<open>option\<close> (\<open>None\<close> is the null pointer), an
    out-pointer argument is \<open>NullPtr\<close> or \<open>OutPtr\<close> and the value stored through it is
    returned beside the \<^verbatim>\<open>HRESULT\<close>;
  \<^item> \<^verbatim>\<open>DWORD\<close> is \<open>32 word\<close>, so \<^verbatim>\<open>++\<close> and \<^verbatim>\<open>--\<close> wrap around;
  \<^item> a method call is modelled on its own, from the state in which it starts to the
    state in which it returns. Calls that run at the same time are not modelled; in the
    code all methods enter the critical section but \<^verbatim>\<open>ProcessSample\<close> and
    \<^verbatim>\<open>RequestSamples\<close>.
\<close>

subsection \<open>Result codes, GUIDs and formats\<close>

text \<open>The \<^verbatim>\<open>HRESULT\<close> values that the modelled code returns or receives.\<close>

datatype HRESULT =
    S_OK
  | E_POINTER
  | E_FAIL
  | MF_E_INVALIDREQUEST
  | MF_E_SHUTDOWN
  | MF_E_NOT_INITIALIZED
  | MF_E_NO_MORE_TYPES
  | MF_E_INVALIDMEDIATYPE
  | MF_E_INVALIDSTREAMNUMBER
  | MF_E_INVALIDINDEX
  | MF_E_ATTRIBUTENOTFOUND
  | MF_E_STREAMSINKS_FIXED

fun FAILED :: "HRESULT \<Rightarrow> bool" where
  "FAILED S_OK = False"
| "FAILED _ = True"

definition SUCCEEDED :: "HRESULT \<Rightarrow> bool" where
  "SUCCEEDED hr = (\<not> FAILED hr)"

text \<open>
  The GUID constants that the code names (they are declared, pairwise different, in the
  platform headers), and \<open>GUID_Other\<close> for every other GUID.
\<close>

datatype GUID =
    GUID_NULL
  | MFMediaType_Video
  | MFVideoFormat_NV12
  | MFVideoFormat_IYUV
  | MFVideoFormat_YUY2
  | MFVideoFormat_YV12
  | MFVideoFormat_RGB32
  | MFVideoFormat_ARGB32
  | MFVideoFormat_RGB24
  | MFVideoFormat_RGB555
  | MFVideoFormat_RGB565
  | MFVideoFormat_RGB8
  | MFVideoFormat_AYUV
  | MFVideoFormat_UYVY
  | MFVideoFormat_YVYU
  | MFVideoFormat_YVU9
  | MEDIASUBTYPE_V216
  | MFVideoFormat_v410
  | MFVideoFormat_I420
  | MFVideoFormat_NV11
  | MFVideoFormat_420O
  | MFVideoFormat_AI44
  | MFVideoFormat_P010
  | MFVideoFormat_P016
  | MFVideoFormat_Y210
  | MFVideoFormat_Y216
  | MFVideoFormat_Y410
  | MFVideoFormat_Y416
  | GUID_Other nat

datatype DXGI_FORMAT =
    DXGI_FORMAT_UNKNOWN
  | DXGI_FORMAT_B8G8R8X8_UNORM
  | DXGI_FORMAT_R8G8B8A8_UNORM
  | DXGI_FORMAT_AYUV
  | DXGI_FORMAT_YUY2
  | DXGI_FORMAT_NV12
  | DXGI_FORMAT_NV11
  | DXGI_FORMAT_AI44
  | DXGI_FORMAT_P010
  | DXGI_FORMAT_P016
  | DXGI_FORMAT_Y210
  | DXGI_FORMAT_Y216
  | DXGI_FORMAT_Y410
  | DXGI_FORMAT_Y416
  | DXGI_FORMAT_420_OPAQUE

type_synonym DWORD = "32 word"

definition SAMPLE_QUEUE_HIWATER_THRESHOLD :: DWORD where
  "SAMPLE_QUEUE_HIWATER_THRESHOLD = 3"

definition s_pVideoFormats :: "GUID list" where
  "s_pVideoFormats =
    [ MFVideoFormat_NV12,
      MFVideoFormat_IYUV,
      MFVideoFormat_YUY2,
      MFVideoFormat_YV12,
      MFVideoFormat_RGB32,
      MFVideoFormat_RGB32,
      MFVideoFormat_RGB24,
      MFVideoFormat_RGB555,
      MFVideoFormat_RGB565,
      MFVideoFormat_RGB8,
      MFVideoFormat_AYUV,
      MFVideoFormat_UYVY,
      MFVideoFormat_YVYU,
      MFVideoFormat_YVU9,
      MEDIASUBTYPE_V216,
      MFVideoFormat_v410,
      MFVideoFormat_I420,
      MFVideoFormat_NV11,
      MFVideoFormat_420O ]"

definition s_dwNumVideoFormats :: DWORD where
  "s_dwNumVideoFormats = of_nat (length s_pVideoFormats)"

text \<open>\<^verbatim>\<open>FormatEntry\<close>: a pair of subtype and surface format.\<close>

definition s_DXGIFormatMapping :: "(GUID \<times> DXGI_FORMAT) list" where
  "s_DXGIFormatMapping =
    [ (MFVideoFormat_RGB32, DXGI_FORMAT_B8G8R8X8_UNORM),
      (MFVideoFormat_ARGB32, DXGI_FORMAT_R8G8B8A8_UNORM),
      (MFVideoFormat_AYUV, DXGI_FORMAT_AYUV),
      (MFVideoFormat_YUY2, DXGI_FORMAT_YUY2),
      (MFVideoFormat_NV12, DXGI_FORMAT_NV12),
      (MFVideoFormat_NV11, DXGI_FORMAT_NV11),
      (MFVideoFormat_AI44, DXGI_FORMAT_AI44),
      (MFVideoFormat_P010, DXGI_FORMAT_P010),
      (MFVideoFormat_P016, DXGI_FORMAT_P016),
      (MFVideoFormat_Y210, DXGI_FORMAT_Y210),
      (MFVideoFormat_Y216, DXGI_FORMAT_Y216),
      (MFVideoFormat_Y410, DXGI_FORMAT_Y410),
      (MFVideoFormat_Y416, DXGI_FORMAT_Y416),
      (MFVideoFormat_420O, DXGI_FORMAT_420_OPAQUE) ]"

subsection \<open>States, operations and the validity matrix\<close>

datatype State =
    State_TypeNotSet
  | State_Ready
  | State_Started
  | State_Paused
  | State_Stopped

datatype StreamOperation =
    OpSetMediaType
  | OpStart
  | OpRestart
  | OpPause
  | OpStop
  | OpProcessSample
  | OpPlaceMarker

text \<open>The values of the enumerators, used as array indices by the code.\<close>

fun State_index :: "State \<Rightarrow> nat" where
  "State_index State_TypeNotSet = 0"
| "State_index State_Ready = 1"
| "State_index State_Started = 2"
| "State_index State_Paused = 3"
| "State_index State_Stopped = 4"

fun Op_index :: "StreamOperation \<Rightarrow> nat" where
  "Op_index OpSetMediaType = 0"
| "Op_index OpStart = 1"
| "Op_index OpRestart = 2"
| "Op_index OpPause = 3"
| "Op_index OpStop = 4"
| "Op_index OpProcessSample = 5"
| "Op_index OpPlaceMarker = 6"

text \<open>Rows: NotSet, Ready, Start, Pause, Stop. Columns: SetType, Start, Restart, Pause,
  Stop, Sample, Marker.\<close>

definition ValidStateMatrix :: "bool list list" where
  "ValidStateMatrix =
    [ [True, False, False, False, False, False, False],
      [True, True,  True,  True,  True,  False, True],
      [True, True,  False, True,  True,  True,  True],
      [True, True,  True,  True,  True,  True,  True],
      [True, True,  False, False, True,  False, True] ]"

definition ValidateOperation :: "State \<Rightarrow> StreamOperation \<Rightarrow> HRESULT" where
  "ValidateOperation state op =
    (let bTransitionAllowed = ValidStateMatrix ! State_index state ! Op_index op
     in if bTransitionAllowed then S_OK else MF_E_INVALIDREQUEST)"

subsection \<open>Media types, samples and events\<close>

text \<open>
  An \<^verbatim>\<open>IMFMediaType\<close> is an attribute store; the code reads and writes two of its
  attributes. \<^verbatim>\<open>GetGUID\<close> fails on an attribute that is not set.
\<close>

record IMFMediaType =
  MF_MT_MAJOR_TYPE :: "GUID option"
  MF_MT_SUBTYPE :: "GUID option"

definition GetGUID_SUBTYPE :: "IMFMediaType \<Rightarrow> GUID \<Rightarrow> HRESULT \<times> GUID" where
  "GetGUID_SUBTYPE mt dflt =
    (case MF_MT_SUBTYPE mt of
       None \<Rightarrow> (MF_E_ATTRIBUTENOTFOUND, dflt)
     | Some g \<Rightarrow> (S_OK, g))"

text \<open>
  An \<^verbatim>\<open>IMFSample\<close> is given by what its three methods answer to \<^verbatim>\<open>ProcessSample\<close>:
  the result and count of \<^verbatim>\<open>GetBufferCount\<close>, and the results of
  \<^verbatim>\<open>GetBufferByIndex(0)\<close> and \<^verbatim>\<open>ConvertToContiguousBuffer\<close>.
\<close>

record IMFSample =
  GetBufferCount_hr :: HRESULT
  cBuffers :: DWORD
  GetBufferByIndex_hr :: HRESULT
  ConvertToContiguousBuffer_hr :: HRESULT

datatype MediaEventType = MEStreamSinkStarted | MEStreamSinkRequestSample

text \<open>A queued event: type, extended type and status (the value is always \<^verbatim>\<open>NULL\<close>).\<close>

type_synonym MediaEvent = "MediaEventType \<times> GUID \<times> HRESULT"

datatype outptr = NullPtr | OutPtr

record sFraction =
  Numerator :: DWORD
  Denominator :: DWORD

subsection \<open>The stream sink\<close>

text \<open>
  The members of \<^verbatim>\<open>CustomVideoStreamSink\<close> that its lifecycle, admission and type
  negotiation read or write (the Direct3D members are set up by the constructor and used
  by \<^verbatim>\<open>GetService\<close> only). \<open>scheduledWorkItems\<close> is not a member: it is the number of
  work items for \<^verbatim>\<open>m_WorkQueueCB\<close> that \<^verbatim>\<open>MFScheduleWorkItem\<close> has handed to the
  platform's timer. \<^verbatim>\<open>m_count\<close> is an \<^verbatim>\<open>int\<close> that is only
  incremented and never read.
\<close>

record CustomVideoStreamSink =
  m_pSink :: "unit option"
  m_IsShutdown :: bool
  m_pCurrentType :: "IMFMediaType option"
  m_pEventQueue :: "MediaEvent list option"
  m_state :: State
  m_imageBytesPP :: sFraction
  m_dxgiFormat :: DXGI_FORMAT
  m_cOutstandingSampleRequests :: DWORD
  m_count :: "32 word"
  scheduledWorkItems :: nat

text \<open>The constructor: the member initialisers, and \<^verbatim>\<open>MFCreateEventQueue\<close>.\<close>

definition new_CustomVideoStreamSink :: CustomVideoStreamSink where
  "new_CustomVideoStreamSink =
    \<lparr> m_pSink = Some (),
      m_IsShutdown = False,
      m_pCurrentType = None,
      m_pEventQueue = Some [],
      m_state = State_TypeNotSet,
      m_imageBytesPP = \<lparr> Numerator = 1, Denominator = 1 \<rparr>,
      m_dxgiFormat = DXGI_FORMAT_UNKNOWN,
      m_cOutstandingSampleRequests = 0,
      m_count = 0,
      scheduledWorkItems = 0 \<rparr>"

definition CheckShutdown :: "CustomVideoStreamSink \<Rightarrow> HRESULT" where
  "CheckShutdown s = (if m_IsShutdown s then MF_E_SHUTDOWN else S_OK)"

definition NeedMoreSamples :: "CustomVideoStreamSink \<Rightarrow> bool" where
  "NeedMoreSamples s =
    (let cSamplesInFlight = m_cOutstandingSampleRequests s
     in cSamplesInFlight < SAMPLE_QUEUE_HIWATER_THRESHOLD)"

text \<open>
  \<^verbatim>\<open>QueueEvent\<close>: after the shutdown check the event goes to the queue, which is
  dereferenced without a test. A live queue takes the event and answers \<^verbatim>\<open>S_OK\<close>.
\<close>

definition QueueEvent ::
  "CustomVideoStreamSink \<Rightarrow> MediaEventType \<Rightarrow> GUID \<Rightarrow> HRESULT \<Rightarrow> (HRESULT \<times> CustomVideoStreamSink) option"
where
  "QueueEvent s met guidExtendedType hrStatus =
    (let hr = CheckShutdown s
     in if SUCCEEDED hr then
          (case m_pEventQueue s of
             None \<Rightarrow> None
           | Some q \<Rightarrow>
               Some (S_OK, s\<lparr> m_pEventQueue := Some (q @ [(met, guidExtendedType, hrStatus)]) \<rparr>))
        else Some (hr, s))"

text \<open>
  \<^verbatim>\<open>QueueRequest\<close>: \<^verbatim>\<open>MFScheduleWorkItem\<close> hands one more work item to the timer
  (the cancel key is dropped) and answers \<^verbatim>\<open>S_OK\<close>.
\<close>

definition QueueRequest :: "CustomVideoStreamSink \<Rightarrow> HRESULT \<times> CustomVideoStreamSink" where
  "QueueRequest s = (S_OK, s\<lparr> scheduledWorkItems := Suc (scheduledWorkItems s) \<rparr>)"

text \<open>
  The body of the \<^verbatim>\<open>while\<close> loop of \<^verbatim>\<open>RequestSamples\<close>; the second argument is the
  current value of \<^verbatim>\<open>hr\<close>. The \<^verbatim>\<open>break\<close> leaves the loop with the failed \<^verbatim>\<open>hr\<close>.
\<close>

function RequestSamples_loop ::
  "CustomVideoStreamSink \<Rightarrow> HRESULT \<Rightarrow> (HRESULT \<times> CustomVideoStreamSink) option"
where
  "RequestSamples_loop s hr =
    (if NeedMoreSamples s then
       (if FAILED (CheckShutdown s) then Some (CheckShutdown s, s)
        else
          (case QueueEvent
                  (s\<lparr> m_cOutstandingSampleRequests := m_cOutstandingSampleRequests s + 1 \<rparr>)
                  MEStreamSinkRequestSample GUID_NULL S_OK of
             None \<Rightarrow> None
           | Some (hr', s') \<Rightarrow> RequestSamples_loop s' hr'))
     else Some (hr, s))"
  by pat_completeness auto
termination
proof (relation "measure (\<lambda>(s, hr). 3 - unat (m_cOutstandingSampleRequests s))")
  show "wf (measure (\<lambda>(s, hr). 3 - unat (m_cOutstandingSampleRequests s)))"
    by simp
next
  fix s :: CustomVideoStreamSink and hr :: HRESULT and x2 hr' s'
  assume need: "NeedMoreSamples s"
    and q: "QueueEvent
              (s\<lparr> m_cOutstandingSampleRequests := m_cOutstandingSampleRequests s + 1 \<rparr>)
              MEStreamSinkRequestSample GUID_NULL S_OK = Some x2"
    and x2: "(hr', s') = x2"
  from need have lt: "unat (m_cOutstandingSampleRequests s) < 3"
    by (simp add: NeedMoreSamples_def SAMPLE_QUEUE_HIWATER_THRESHOLD_def word_less_nat_alt)
  then have "unat (m_cOutstandingSampleRequests s + 1) = Suc (unat (m_cOutstandingSampleRequests s))"
    by (simp add: unat_word_ariths)
  moreover from q x2 have "m_cOutstandingSampleRequests s' = m_cOutstandingSampleRequests s + 1"
    by (auto simp: QueueEvent_def Let_def split: if_splits option.splits)
  ultimately show "((s', hr'), (s, hr)) \<in> measure (\<lambda>(s, hr). 3 - unat (m_cOutstandingSampleRequests s))"
    using lt by simp
qed

definition RequestSamples :: "CustomVideoStreamSink \<Rightarrow> (HRESULT \<times> CustomVideoStreamSink) option" where
  "RequestSamples s =
    (case RequestSamples_loop s S_OK of
       None \<Rightarrow> None
     | Some (hr, s') \<Rightarrow> Some (QueueRequest s'))"

definition Pause :: "CustomVideoStreamSink \<Rightarrow> HRESULT \<times> CustomVideoStreamSink" where
  "Pause s =
    (let hr = ValidateOperation (m_state s) OpPause
     in if SUCCEEDED hr then (hr, s\<lparr> m_state := State_Paused \<rparr>) else (hr, s))"

definition Restart :: "CustomVideoStreamSink \<Rightarrow> HRESULT \<times> CustomVideoStreamSink" where
  "Restart s =
    (let hr = ValidateOperation (m_state s) OpRestart
     in if SUCCEEDED hr then (hr, s\<lparr> m_state := State_Started \<rparr>) else (hr, s))"

text \<open>
  \<^verbatim>\<open>Shutdown\<close> sets the flag, shuts the queue down when there is one, and releases the
  sink, the queue and the current type.
\<close>

definition Shutdown :: "CustomVideoStreamSink \<Rightarrow> HRESULT \<times> CustomVideoStreamSink" where
  "Shutdown s =
    (MF_E_SHUTDOWN,
     s\<lparr> m_IsShutdown := True, m_pSink := None, m_pEventQueue := None, m_pCurrentType := None \<rparr>)"

text \<open>
  \<^verbatim>\<open>Start\<close>: the start time is compared with \<^verbatim>\<open>PRESENTATION_CURRENT_POSITION\<close> and then
  not used. The result of the shutdown check and of \<^verbatim>\<open>QueueEvent\<close> is overwritten by the
  result of \<^verbatim>\<open>QueueRequest\<close>.
\<close>

definition Start :: "CustomVideoStreamSink \<Rightarrow> int \<Rightarrow> (HRESULT \<times> CustomVideoStreamSink) option" where
  "Start s start =
    (let hr = ValidateOperation (m_state s) OpStart
     in if FAILED hr then Some (hr, s)
        else
          (let s1 = s\<lparr> m_state := State_Started \<rparr>;
               hr1 = CheckShutdown s1
           in if SUCCEEDED hr1 then
                (case QueueEvent s1 MEStreamSinkStarted GUID_NULL hr1 of
                   None \<Rightarrow> None
                 | Some (hr2, s2) \<Rightarrow> Some (QueueRequest s2))
              else Some (QueueRequest s1)))"

definition Stop :: "CustomVideoStreamSink \<Rightarrow> HRESULT \<times> CustomVideoStreamSink" where
  "Stop s =
    (let hr = ValidateOperation (m_state s) OpStop
     in if SUCCEEDED hr then (hr, s\<lparr> m_state := State_Stopped \<rparr>) else (hr, s))"

definition Flush :: "CustomVideoStreamSink \<Rightarrow> HRESULT \<times> CustomVideoStreamSink" where
  "Flush s = (S_OK, s)"

definition PlaceMarker :: "CustomVideoStreamSink \<Rightarrow> HRESULT \<times> CustomVideoStreamSink" where
  "PlaceMarker s = (E_FAIL, s)"

text \<open>
  \<^verbatim>\<open>ProcessSample\<close> counts the call, decrements the counter and then reads the sample
  (a null sample is dereferenced). What it does with the texture does not change the
  result: both ways out of the inner block return \<^verbatim>\<open>S_OK\<close>.
\<close>

definition ProcessSample ::
  "CustomVideoStreamSink \<Rightarrow> IMFSample option \<Rightarrow> (HRESULT \<times> CustomVideoStreamSink) option"
where
  "ProcessSample s pSample =
    (let s1 = s\<lparr> m_count := m_count s + 1,
                 m_cOutstandingSampleRequests := m_cOutstandingSampleRequests s - 1 \<rparr>
     in case pSample of
          None \<Rightarrow> None
        | Some smp \<Rightarrow>
            (let hr = GetBufferCount_hr smp
             in if FAILED hr then Some (hr, s1)
                else
                  (let hr1 = (if 1 = cBuffers smp then GetBufferByIndex_hr smp
                              else ConvertToContiguousBuffer_hr smp)
                   in if FAILED hr1 then Some (hr1, s1) else Some (S_OK, s1))))"

definition GetCurrentMediaType ::
  "CustomVideoStreamSink \<Rightarrow> outptr \<Rightarrow> HRESULT \<times> IMFMediaType option"
where
  "GetCurrentMediaType s ppMediaType =
    (if ppMediaType = NullPtr then (E_POINTER, None)
     else
       (let hr = CheckShutdown s;
            hr1 = (if SUCCEEDED hr then
                     (if m_pCurrentType s = None then MF_E_NOT_INITIALIZED else hr)
                   else hr)
        in if SUCCEEDED hr1 then (hr1, m_pCurrentType s) else (hr1, None)))"

text \<open>
  \<^verbatim>\<open>GetMediaTypeByIndex\<close>: the new media type is created and filled by the platform
  (\<^verbatim>\<open>MFCreateMediaType\<close>, \<^verbatim>\<open>SetGUID\<close>), which answers \<^verbatim>\<open>S_OK\<close>.
\<close>

definition GetMediaTypeByIndex ::
  "CustomVideoStreamSink \<Rightarrow> DWORD \<Rightarrow> outptr \<Rightarrow> HRESULT \<times> IMFMediaType option"
where
  "GetMediaTypeByIndex s dwIndex ppType =
    (if ppType = NullPtr then (E_POINTER, None)
     else if FAILED (CheckShutdown s) then (CheckShutdown s, None)
     else if dwIndex \<ge> s_dwNumVideoFormats then (MF_E_NO_MORE_TYPES, None)
     else
       (S_OK,
        Some \<lparr> MF_MT_MAJOR_TYPE = Some MFMediaType_Video,
               MF_MT_SUBTYPE = Some (s_pVideoFormats ! unat dwIndex) \<rparr>))"

definition GetMediaTypeCount :: "CustomVideoStreamSink \<Rightarrow> outptr \<Rightarrow> HRESULT \<times> DWORD option" where
  "GetMediaTypeCount s pdwTypeCount =
    (if pdwTypeCount = NullPtr then (E_POINTER, None)
     else if FAILED (CheckShutdown s) then (CheckShutdown s, None)
     else (S_OK, Some s_dwNumVideoFormats))"

text \<open>
  \<^verbatim>\<open>IsMediaTypeSupported\<close>: the first loop looks the subtype up in the catalog, the second
  takes the surface format of the first entry of the mapping with that subtype, if any.
  The second argument of the method receives \<^verbatim>\<open>NULL\<close> when it is given and is left out.
\<close>

definition IsMediaTypeSupported ::
  "CustomVideoStreamSink \<Rightarrow> IMFMediaType option \<Rightarrow> HRESULT \<times> CustomVideoStreamSink"
where
  "IsMediaTypeSupported s pMediaType =
    (if FAILED (CheckShutdown s) then (CheckShutdown s, s)
     else
       (case pMediaType of
          None \<Rightarrow> (E_POINTER, s)
        | Some mt \<Rightarrow>
            (let (hr, subType) = GetGUID_SUBTYPE mt GUID_NULL
             in if FAILED hr then (hr, s)
                else if subType \<notin> set s_pVideoFormats then (MF_E_INVALIDMEDIATYPE, s)
                else
                  (case map_of s_DXGIFormatMapping subType of
                     None \<Rightarrow> (S_OK, s)
                   | Some f \<Rightarrow> (S_OK, s\<lparr> m_dxgiFormat := f \<rparr>)))))"

text \<open>The chain of comparisons in \<^verbatim>\<open>SetCurrentMediaType\<close> that sets \<^verbatim>\<open>m_imageBytesPP\<close>.\<close>

definition SetCurrentMediaType_bytesPP :: "GUID \<Rightarrow> sFraction" where
  "SetCurrentMediaType_bytesPP guidSubtype =
    (if guidSubtype = MFVideoFormat_NV12 \<or>
        guidSubtype = MFVideoFormat_YV12 \<or>
        guidSubtype = MFVideoFormat_IYUV \<or>
        guidSubtype = MFVideoFormat_YVU9 \<or>
        guidSubtype = MFVideoFormat_I420
     then \<lparr> Numerator = 3, Denominator = 2 \<rparr>
     else if guidSubtype = MFVideoFormat_YUY2 \<or>
        guidSubtype = MFVideoFormat_RGB555 \<or>
        guidSubtype = MFVideoFormat_RGB565 \<or>
        guidSubtype = MFVideoFormat_UYVY \<or>
        guidSubtype = MFVideoFormat_YVYU \<or>
        guidSubtype = MEDIASUBTYPE_V216
     then \<lparr> Numerator = 2, Denominator = 1 \<rparr>
     else if guidSubtype = MFVideoFormat_RGB24
     then \<lparr> Numerator = 3, Denominator = 1 \<rparr>
     else if guidSubtype = MFVideoFormat_RGB32
     then \<lparr> Numerator = 4, Denominator = 1 \<rparr>
     else if guidSubtype = MFVideoFormat_v410
     then \<lparr> Numerator = 5, Denominator = 4 \<rparr>
     else \<lparr> Numerator = 1, Denominator = 1 \<rparr>)"

text \<open>
  \<^verbatim>\<open>SetCurrentMediaType\<close>. Its last branch calls \<^verbatim>\<open>Flush\<close>, a virtual method of
  \<^verbatim>\<open>IMFStreamSink\<close>, on the object itself. The method that this call reaches is the
  first argument of \<open>SetCurrentMediaType_calling\<close>, so that the call shows in the result;
  \<open>SetCurrentMediaType\<close> is the method of this class, where the call reaches the
  \<^verbatim>\<open>Flush\<close> of this class.
\<close>

definition SetCurrentMediaType_calling ::
  "(CustomVideoStreamSink \<Rightarrow> HRESULT \<times> CustomVideoStreamSink) \<Rightarrow>
   CustomVideoStreamSink \<Rightarrow> IMFMediaType option \<Rightarrow> HRESULT \<times> CustomVideoStreamSink"
where
  "SetCurrentMediaType_calling flush s pMediaType =
    (case pMediaType of
       None \<Rightarrow> (E_POINTER, s)
     | Some mt \<Rightarrow>
         (if FAILED (CheckShutdown s) then (CheckShutdown s, s)
          else if FAILED (ValidateOperation (m_state s) OpSetMediaType)
          then (ValidateOperation (m_state s) OpSetMediaType, s)
          else
            (let (hr, s1) = IsMediaTypeSupported s pMediaType
             in if FAILED hr then (hr, s1)
                else
                  (let s2 = s1\<lparr> m_pCurrentType := Some mt \<rparr>;
                       guidSubtype = snd (GetGUID_SUBTYPE mt GUID_NULL);
                       s3 = s2\<lparr> m_imageBytesPP := SetCurrentMediaType_bytesPP guidSubtype \<rparr>
                   in if State_Started \<noteq> m_state s3 \<and> State_Paused \<noteq> m_state s3
                      then (hr, s3\<lparr> m_state := State_Ready \<rparr>)
                      else flush s3))))"

definition SetCurrentMediaType ::
  "CustomVideoStreamSink \<Rightarrow> IMFMediaType option \<Rightarrow> HRESULT \<times> CustomVideoStreamSink"
where
  "SetCurrentMediaType s pMediaType = SetCurrentMediaType_calling Flush s pMediaType"

subsection \<open>The media sink\<close>

text \<open>
  The members of \<^verbatim>\<open>CustomVideoRenderer\<close>. Its shutdown flag is \<^verbatim>\<open>m_IsShutdown\<close> in the
  code; here it is \<open>sink_IsShutdown\<close>, apart from the stream sink's flag. The
  presentation clock is known by a number.
\<close>

record CustomVideoRenderer =
  m_pStream :: "CustomVideoStreamSink option"
  sink_IsShutdown :: bool
  m_pClock :: "nat option"

definition STREAM_ID :: DWORD where
  "STREAM_ID = 1"

text \<open>\<^verbatim>\<open>CreateInstance\<close>: the constructor and \<^verbatim>\<open>Initialize\<close>, which makes the stream sink.\<close>

definition new_CustomVideoRenderer :: CustomVideoRenderer where
  "new_CustomVideoRenderer =
    \<lparr> m_pStream = Some new_CustomVideoStreamSink, sink_IsShutdown = False, m_pClock = None \<rparr>"

definition CustomVideoRenderer_CheckShutdown :: "CustomVideoRenderer \<Rightarrow> HRESULT" where
  "CustomVideoRenderer_CheckShutdown r = (if sink_IsShutdown r then MF_E_SHUTDOWN else S_OK)"

text \<open>
  \<^verbatim>\<open>GetStreamSinkById\<close> and \<^verbatim>\<open>GetStreamSinkByIndex\<close> store the stream pointer and call
  \<^verbatim>\<open>AddRef\<close> through it without a test. The first returns \<^verbatim>\<open>E_FAIL\<close> at its end, the
  second returns \<^verbatim>\<open>hr\<close>.
\<close>

definition GetStreamSinkById ::
  "CustomVideoRenderer \<Rightarrow> DWORD \<Rightarrow> outptr \<Rightarrow> (HRESULT \<times> CustomVideoStreamSink option) option"
where
  "GetStreamSinkById r dwStreamSinkIdentifier ppStreamSink =
    (if ppStreamSink = NullPtr then Some (E_POINTER, None)
     else if dwStreamSinkIdentifier \<noteq> STREAM_ID then Some (MF_E_INVALIDSTREAMNUMBER, None)
     else if SUCCEEDED (CustomVideoRenderer_CheckShutdown r) then
       (case m_pStream r of
          None \<Rightarrow> None
        | Some st \<Rightarrow> Some (E_FAIL, Some st))
     else Some (E_FAIL, None))"

definition GetStreamSinkByIndex ::
  "CustomVideoRenderer \<Rightarrow> DWORD \<Rightarrow> outptr \<Rightarrow> (HRESULT \<times> CustomVideoStreamSink option) option"
where
  "GetStreamSinkByIndex r dwIndex ppStreamSink =
    (if ppStreamSink = NullPtr then Some (E_POINTER, None)
     else if dwIndex > 0 then Some (MF_E_INVALIDINDEX, None)
     else if SUCCEEDED (CustomVideoRenderer_CheckShutdown r) then
       (case m_pStream r of
          None \<Rightarrow> None
        | Some st \<Rightarrow> Some (CustomVideoRenderer_CheckShutdown r, Some st))
     else Some (CustomVideoRenderer_CheckShutdown r, None))"

text \<open>
  \<^verbatim>\<open>CustomVideoRenderer::Shutdown\<close>: the stream sink, when there is one, is shut down
  and then released with the clock. The result is \<^verbatim>\<open>MF_E_SHUTDOWN\<close> from the first line on.
\<close>

definition CustomVideoRenderer_Shutdown :: "CustomVideoRenderer \<Rightarrow> HRESULT \<times> CustomVideoRenderer" where
  "CustomVideoRenderer_Shutdown r =
    (let hr = MF_E_SHUTDOWN;
         r1 = r\<lparr> sink_IsShutdown := True \<rparr>;
         r2 = (case m_pStream r1 of
                 None \<Rightarrow> r1
               | Some st \<Rightarrow> r1\<lparr> m_pStream := Some (snd (Shutdown st)) \<rparr>)
     in (hr, r2\<lparr> m_pClock := None, m_pStream := None \<rparr>))"

text \<open>The clock callbacks: each checks the media sink's flag and then calls the stream
  sink through \<^verbatim>\<open>m_pStream\<close>, without a test of the pointer.\<close>

definition OnClockPause :: "CustomVideoRenderer \<Rightarrow> (HRESULT \<times> CustomVideoRenderer) option" where
  "OnClockPause r =
    (let hr = CustomVideoRenderer_CheckShutdown r
     in if SUCCEEDED hr then
          (case m_pStream r of
             None \<Rightarrow> None
           | Some st \<Rightarrow> Some (fst (Pause st), r\<lparr> m_pStream := Some (snd (Pause st)) \<rparr>))
        else Some (hr, r))"

definition OnClockRestart :: "CustomVideoRenderer \<Rightarrow> (HRESULT \<times> CustomVideoRenderer) option" where
  "OnClockRestart r =
    (let hr = CustomVideoRenderer_CheckShutdown r
     in if SUCCEEDED hr then
          (case m_pStream r of
             None \<Rightarrow> None
           | Some st \<Rightarrow> Some (fst (Restart st), r\<lparr> m_pStream := Some (snd (Restart st)) \<rparr>))
        else Some (hr, r))"

definition OnClockStart ::
  "CustomVideoRenderer \<Rightarrow> int \<Rightarrow> (HRESULT \<times> CustomVideoRenderer) option"
where
  "OnClockStart r llClockStartOffset =
    (let hr = CustomVideoRenderer_CheckShutdown r
     in if FAILED hr then Some (hr, r)
        else
          (case m_pStream r of
             None \<Rightarrow> None
           | Some st \<Rightarrow>
               (let (hr1, st1) = Flush st
                in if SUCCEEDED hr1 then
                     (case Start st1 llClockStartOffset of
                        None \<Rightarrow> None
                      | Some (hr2, st2) \<Rightarrow> Some (hr2, r\<lparr> m_pStream := Some st2 \<rparr>))
                   else Some (hr1, r\<lparr> m_pStream := Some st1 \<rparr>))))"

definition OnClockStop :: "CustomVideoRenderer \<Rightarrow> (HRESULT \<times> CustomVideoRenderer) option" where
  "OnClockStop r =
    (let hr = CustomVideoRenderer_CheckShutdown r
     in if SUCCEEDED hr then
          (case m_pStream r of
             None \<Rightarrow> None
           | Some st \<Rightarrow> Some (fst (Stop st), r\<lparr> m_pStream := Some (snd (Stop st)) \<rparr>))
        else Some (hr, r))"

subsection \<open>Sample inputs and sinks\<close>

text \<open>A sample whose three methods succeed, with one buffer.\<close>

definition goodSample :: IMFSample where
  "goodSample =
    \<lparr> GetBufferCount_hr = S_OK, cBuffers = 1,
      GetBufferByIndex_hr = S_OK, ConvertToContiguousBuffer_hr = S_OK \<rparr>"

definition videoType :: "GUID \<Rightarrow> IMFMediaType" where
  "videoType g = \<lparr> MF_MT_MAJOR_TYPE = Some MFMediaType_Video, MF_MT_SUBTYPE = Some g \<rparr>"

text \<open>A sink in state \<open>State_Ready\<close>: a new sink after a successful negotiation of NV12.\<close>

definition readySink :: CustomVideoStreamSink where
  "readySink =
    snd (SetCurrentMediaType new_CustomVideoStreamSink (Some (videoType MFVideoFormat_NV12)))"

text \<open>The two events that the stream sink queues.\<close>

definition startedEvent :: MediaEvent where
  "startedEvent = (MEStreamSinkStarted, GUID_NULL, S_OK)"

definition requestSampleEvent :: MediaEvent where
  "requestSampleEvent = (MEStreamSinkRequestSample, GUID_NULL, S_OK)"

text \<open>
  The sinks that a new sink goes through when it is negotiated to NV12 (\<open>readySink\<close>),
  started, asked for samples by the first admission tick, given one sample, stopped and
  negotiated again. All these calls are allowed by the matrix; the last sink is in
  \<open>State_Ready\<close> with two requests outstanding.
\<close>

definition startedSink :: CustomVideoStreamSink where
  "startedSink =
    readySink\<lparr> m_state := State_Started,
                m_pEventQueue := Some [startedEvent],
                scheduledWorkItems := 1 \<rparr>"

definition requestedSink :: CustomVideoStreamSink where
  "requestedSink =
    startedSink\<lparr> m_cOutstandingSampleRequests := 3,
                  m_pEventQueue :=
                    Some [startedEvent, requestSampleEvent, requestSampleEvent, requestSampleEvent],
                  scheduledWorkItems := 2 \<rparr>"

definition servedSink :: CustomVideoStreamSink where
  "servedSink = requestedSink\<lparr> m_count := 1, m_cOutstandingSampleRequests := 2 \<rparr>"

definition stoppedSink :: CustomVideoStreamSink where
  "stoppedSink = servedSink\<lparr> m_state := State_Stopped \<rparr>"

definition readyAgainSink :: CustomVideoStreamSink where
  "readyAgainSink = stoppedSink\<lparr> m_state := State_Ready \<rparr>"

text \<open>A \<^verbatim>\<open>Flush\<close> method that fails, as an overriding method may.\<close>

definition rejectingFlush :: "CustomVideoStreamSink \<Rightarrow> HRESULT \<times> CustomVideoStreamSink" where
  "rejectingFlush s = (E_FAIL, s)"

subsection \<open>The documented table of bytes per pixel\<close>

text \<open>
  The table of the specification, in its words: the 4:2:0 planar and semi-planar
  family has ratio 3/2, the packed 4:2:2 family 2/1, packed RGB of 24 bits 3/1 and of
  32 bits 4/1, the packed 10-bit format \<^verbatim>\<open>v410\<close> 5/4, and any other accepted subtype the
  fail-safe 1/1. The specification names no member of a family but NV12. The families
  are taken as widely as the formats allow: the planar YVU9 counts with the 4:2:0
  family and the 16-bit V216 with the packed 4:2:2 formats. RGB555 and RGB565 are packed
  RGB of 16 bits, RGB8 is palettised, AYUV is packed 4:4:4, NV11 is 4:1:1 and 420O is
  opaque: none of them is in a row above the last.
\<close>

definition family_420 :: "GUID list" where
  "family_420 =
    [MFVideoFormat_NV12, MFVideoFormat_YV12, MFVideoFormat_IYUV, MFVideoFormat_I420,
     MFVideoFormat_YVU9]"

definition family_422_packed :: "GUID list" where
  "family_422_packed =
    [MFVideoFormat_YUY2, MFVideoFormat_UYVY, MFVideoFormat_YVYU, MEDIASUBTYPE_V216]"

definition documentedRatio :: "GUID \<Rightarrow> sFraction" where
  "documentedRatio g =
    (if g \<in> set family_420 then \<lparr> Numerator = 3, Denominator = 2 \<rparr>
     else if g \<in> set family_422_packed then \<lparr> Numerator = 2, Denominator = 1 \<rparr>
     else if g = MFVideoFormat_RGB24 then \<lparr> Numerator = 3, Denominator = 1 \<rparr>
     else if g = MFVideoFormat_RGB32 then \<lparr> Numerator = 4, Denominator = 1 \<rparr>
     else if g = MFVideoFormat_v410 then \<lparr> Numerator = 5, Denominator = 4 \<rparr>
     else \<lparr> Numerator = 1, Denominator = 1 \<rparr>)"

section \<open>Properties\<close>

subsection \<open>Shutdown never reports success\<close>

text \<open>
  Claim C10. \<^verbatim>\<open>Shutdown\<close> never reports success, even when it performs the shutdown:
  on every stream sink and on every media sink, shut down before or not, the call
  returns \<^verbatim>\<open>MF_E_SHUTDOWN\<close>, a failure code, and leaves the shutdown flag set.
\<close>

theorem Shutdown_never_succeeds:
  "fst (Shutdown s) = MF_E_SHUTDOWN
   \<and> FAILED (fst (Shutdown s))
   \<and> m_IsShutdown (snd (Shutdown s))
   \<and> fst (CustomVideoRenderer_Shutdown r) = MF_E_SHUTDOWN
   \<and> FAILED (fst (CustomVideoRenderer_Shutdown r))
   \<and> sink_IsShutdown (snd (CustomVideoRenderer_Shutdown r))"
  by (simp add: Shutdown_def CustomVideoRenderer_Shutdown_def Let_def split: option.split)

subsection \<open>Auxiliary facts\<close>

lemma ValidateOperation_cases:
  "ValidateOperation st op = S_OK \<or> ValidateOperation st op = MF_E_INVALIDREQUEST"
  by (simp add: ValidateOperation_def Let_def)

lemma readySink_eq:
  "readySink = new_CustomVideoStreamSink
     \<lparr> m_pCurrentType := Some (videoType MFVideoFormat_NV12),
       m_state := State_Ready,
       m_imageBytesPP := \<lparr> Numerator = 3, Denominator = 2 \<rparr>,
       m_dxgiFormat := DXGI_FORMAT_NV12 \<rparr>"
  by (simp add: readySink_def SetCurrentMediaType_def SetCurrentMediaType_calling_def new_CustomVideoStreamSink_def CheckShutdown_def
      ValidateOperation_def ValidStateMatrix_def IsMediaTypeSupported_def GetGUID_SUBTYPE_def
      videoType_def s_pVideoFormats_def s_DXGIFormatMapping_def SetCurrentMediaType_bytesPP_def Let_def)

lemma negotiate_new:
  "snd (SetCurrentMediaType new_CustomVideoStreamSink (Some (videoType MFVideoFormat_NV12))) = readySink"
  by (simp add: readySink_def)

lemma readySink_fields:
  "readySink =
    \<lparr> m_pSink = Some (),
      m_IsShutdown = False,
      m_pCurrentType = Some (videoType MFVideoFormat_NV12),
      m_pEventQueue = Some [],
      m_state = State_Ready,
      m_imageBytesPP = \<lparr> Numerator = 3, Denominator = 2 \<rparr>,
      m_dxgiFormat = DXGI_FORMAT_NV12,
      m_cOutstandingSampleRequests = 0,
      m_count = 0,
      scheduledWorkItems = 0 \<rparr>"
  by (simp add: readySink_eq new_CustomVideoStreamSink_def)

lemma s_dwNumVideoFormats_eq: "s_dwNumVideoFormats = 19"
  by (simp add: s_dwNumVideoFormats_def s_pVideoFormats_def)

lemma ValidateOperation_SetMediaType: "ValidateOperation st OpSetMediaType = S_OK"
  by (cases st) (simp_all add: ValidateOperation_def ValidStateMatrix_def)

lemma supported_subtype_IsMediaTypeSupported:
  assumes "\<not> m_IsShutdown s" "g \<in> set s_pVideoFormats" "MF_MT_SUBTYPE mt = Some g"
  shows "IsMediaTypeSupported s (Some mt)
      = (S_OK, case map_of s_DXGIFormatMapping g of None \<Rightarrow> s | Some f \<Rightarrow> s\<lparr> m_dxgiFormat := f \<rparr>)"
  using assms
  by (simp add: IsMediaTypeSupported_def CheckShutdown_def GetGUID_SUBTYPE_def split: option.split)

lemma SetCurrentMediaType_supported:
  assumes "\<not> m_IsShutdown s" "g \<in> set s_pVideoFormats" "MF_MT_SUBTYPE mt = Some g"
  shows "SetCurrentMediaType s (Some mt) =
    (let s3 = (snd (IsMediaTypeSupported s (Some mt)))
                \<lparr> m_pCurrentType := Some mt, m_imageBytesPP := SetCurrentMediaType_bytesPP g \<rparr>
     in if m_state s = State_Started \<or> m_state s = State_Paused then Flush s3
        else (S_OK, s3\<lparr> m_state := State_Ready \<rparr>))"
  using assms
  by (auto simp: SetCurrentMediaType_def SetCurrentMediaType_calling_def supported_subtype_IsMediaTypeSupported CheckShutdown_def
      ValidateOperation_SetMediaType GetGUID_SUBTYPE_def Let_def split: option.split)

lemma Start_allowed:
  assumes "ValidateOperation (m_state s) OpStart = S_OK" "\<not> m_IsShutdown s" "m_pEventQueue s = Some q"
  shows "Start s t = Some (S_OK, s\<lparr> m_state := State_Started,
                                     m_pEventQueue := Some (q @ [startedEvent]),
                                     scheduledWorkItems := Suc (scheduledWorkItems s) \<rparr>)"
  using assms
  by (simp add: Start_def QueueEvent_def CheckShutdown_def SUCCEEDED_def QueueRequest_def
      startedEvent_def Let_def)

lemma startedSink_fields:
  "startedSink =
    \<lparr> m_pSink = Some (),
      m_IsShutdown = False,
      m_pCurrentType = Some (videoType MFVideoFormat_NV12),
      m_pEventQueue = Some [startedEvent],
      m_state = State_Started,
      m_imageBytesPP = \<lparr> Numerator = 3, Denominator = 2 \<rparr>,
      m_dxgiFormat = DXGI_FORMAT_NV12,
      m_cOutstandingSampleRequests = 0,
      m_count = 0,
      scheduledWorkItems = 1 \<rparr>"
  by (simp add: startedSink_def readySink_fields)

text \<open>
  What the loop of the admission tick does on a sink that is not shut down: it tops the
  counter up to the threshold and queues one request-sample event for each increment.
\<close>

lemma RequestSamples_loop_tops_up:
  assumes "\<not> m_IsShutdown s" "m_pEventQueue s = Some q"
  shows "\<exists>hr'. RequestSamples_loop s hr =
     Some (hr', s\<lparr> m_cOutstandingSampleRequests :=
                       (if m_cOutstandingSampleRequests s < 3 then 3 else m_cOutstandingSampleRequests s),
                     m_pEventQueue :=
                       Some (q @ replicate (3 - unat (m_cOutstandingSampleRequests s)) requestSampleEvent) \<rparr>)"
proof -
  let ?c = "m_cOutstandingSampleRequests s"
  have "unat ?c = 0 \<or> unat ?c = 1 \<or> unat ?c = 2 \<or> 3 \<le> unat ?c" by arith
  then have "?c = 0 \<or> ?c = 1 \<or> ?c = 2 \<or> 3 \<le> ?c"
    by (simp add: word_unat_eq_iff word_le_nat_alt)
  then consider "?c = 0" | "?c = 1" | "?c = 2" | "3 \<le> ?c"
    by blast
  then show ?thesis
  proof cases
    case 1
    then have r: "replicate (3 - unat ?c) requestSampleEvent
        = [requestSampleEvent, requestSampleEvent, requestSampleEvent]"
      by (simp add: numeral_3_eq_3)
    show ?thesis
      unfolding r using assms 1
      by (simp add: NeedMoreSamples_def SAMPLE_QUEUE_HIWATER_THRESHOLD_def CheckShutdown_def
          QueueEvent_def SUCCEEDED_def requestSampleEvent_def Let_def)
  next
    case 2
    then have r: "replicate (3 - unat ?c) requestSampleEvent
        = [requestSampleEvent, requestSampleEvent]"
      by (simp add: numeral_2_eq_2)
    show ?thesis
      unfolding r using assms 2
      by (simp add: NeedMoreSamples_def SAMPLE_QUEUE_HIWATER_THRESHOLD_def CheckShutdown_def
          QueueEvent_def SUCCEEDED_def requestSampleEvent_def Let_def)
  next
    case 3
    then have r: "replicate (3 - unat ?c) requestSampleEvent = [requestSampleEvent]"
      by simp
    show ?thesis
      unfolding r using assms 3
      by (simp add: NeedMoreSamples_def SAMPLE_QUEUE_HIWATER_THRESHOLD_def CheckShutdown_def
          QueueEvent_def SUCCEEDED_def requestSampleEvent_def Let_def)
  next
    case 4
    then have "\<not> ?c < 3" and "3 - unat ?c = 0"
      by (simp_all add: word_le_nat_alt word_less_nat_alt)
    with assms show ?thesis
      by (simp add: NeedMoreSamples_def SAMPLE_QUEUE_HIWATER_THRESHOLD_def)
  qed
qed

lemma bytesPP_documented:
  "g \<in> set s_pVideoFormats \<Longrightarrow>
   SetCurrentMediaType_bytesPP g =
     (if g = MFVideoFormat_RGB555 \<or> g = MFVideoFormat_RGB565 then \<lparr> Numerator = 2, Denominator = 1 \<rparr>
      else documentedRatio g)"
  by (auto simp: s_pVideoFormats_def SetCurrentMediaType_bytesPP_def documentedRatio_def
      family_420_def family_422_packed_def)

subsection \<open>The validity matrix and \<^verbatim>\<open>ProcessSample\<close>\<close>

text \<open>
  The lifecycle methods that consult the matrix are closed under it: a call that the
  matrix forbids returns \<^verbatim>\<open>MF_E_INVALIDREQUEST\<close> and changes nothing, and a call returns
  \<^verbatim>\<open>S_OK\<close> only where the matrix allows it.
\<close>

lemma validated_methods_closed:
  "ValidateOperation (m_state s) OpPause \<noteq> S_OK \<Longrightarrow> Pause s = (MF_E_INVALIDREQUEST, s)"
  "ValidateOperation (m_state s) OpStop \<noteq> S_OK \<Longrightarrow> Stop s = (MF_E_INVALIDREQUEST, s)"
  "ValidateOperation (m_state s) OpRestart \<noteq> S_OK \<Longrightarrow> Restart s = (MF_E_INVALIDREQUEST, s)"
  "ValidateOperation (m_state s) OpStart \<noteq> S_OK \<Longrightarrow> Start s t = Some (MF_E_INVALIDREQUEST, s)"
  using ValidateOperation_cases [of "m_state s" OpPause]
    ValidateOperation_cases [of "m_state s" OpStop]
    ValidateOperation_cases [of "m_state s" OpRestart]
    ValidateOperation_cases [of "m_state s" OpStart]
  by (auto simp: Pause_def Stop_def Restart_def Start_def SUCCEEDED_def Let_def)

text \<open>
  Claim C1. For every pair of state and operation, the call succeeds only if the
  matrix allows the pair, and a forbidden call returns \<^verbatim>\<open>MF_E_INVALIDREQUEST\<close> and leaves
  the state unchanged; in particular \<^verbatim>\<open>ProcessSample\<close> in state \<open>State_Ready\<close> is
  rejected. The code does not do this for \<^verbatim>\<open>ProcessSample\<close>, which never consults the
  matrix: on a sink in \<open>State_Ready\<close>, where the matrix forbids the operation, a
  well-formed sample is accepted with \<^verbatim>\<open>S_OK\<close>, and the counter of outstanding requests
  is decremented from 0 to \<open>2^32 - 1\<close>.
\<close>

theorem ProcessSample_in_Ready_accepted:
  "m_state readySink = State_Ready
   \<and> \<not> m_IsShutdown readySink
   \<and> ValidateOperation (m_state readySink) OpProcessSample = MF_E_INVALIDREQUEST
   \<and> ProcessSample readySink (Some goodSample)
       = Some (S_OK, readySink\<lparr> m_count := 1, m_cOutstandingSampleRequests := 4294967295 \<rparr>)"
  by (simp add: readySink_eq new_CustomVideoStreamSink_def ValidateOperation_def ValidStateMatrix_def
      ProcessSample_def goodSample_def Let_def)

subsection \<open>Stream lookup on the media sink\<close>

lemma stream_lookup_rejections:
  "\<lbrakk> \<not> sink_IsShutdown r; m_pStream r = Some st \<rbrakk> \<Longrightarrow>
     GetStreamSinkByIndex r 0 OutPtr = Some (S_OK, Some st)
     \<and> (i \<noteq> STREAM_ID \<longrightarrow> GetStreamSinkById r i OutPtr = Some (MF_E_INVALIDSTREAMNUMBER, None))
     \<and> (0 < j \<longrightarrow> GetStreamSinkByIndex r j OutPtr = Some (MF_E_INVALIDINDEX, None))"
  by (simp add: GetStreamSinkById_def GetStreamSinkByIndex_def
      CustomVideoRenderer_CheckShutdown_def SUCCEEDED_def)

text \<open>
  Claim C8. On a media sink that is not shut down, lookup by the fixed stream identifier
  and lookup by index 0 succeed and return the stream sink, and any other identifier or
  index fails with the invalid-stream-number or invalid-index error. The code does this
  but for the lookup by identifier: on a new media sink, \<^verbatim>\<open>GetStreamSinkById\<close> with the
  fixed identifier stores the stream sink and then returns \<^verbatim>\<open>E_FAIL\<close>, where
  \<^verbatim>\<open>GetStreamSinkByIndex\<close> with index 0 returns \<^verbatim>\<open>S_OK\<close>.
\<close>

theorem GetStreamSinkById_returns_E_FAIL:
  "\<not> sink_IsShutdown new_CustomVideoRenderer
   \<and> GetStreamSinkById new_CustomVideoRenderer STREAM_ID OutPtr
       = Some (E_FAIL, Some new_CustomVideoStreamSink)
   \<and> GetStreamSinkByIndex new_CustomVideoRenderer 0 OutPtr
       = Some (S_OK, Some new_CustomVideoStreamSink)"
  by (simp add: GetStreamSinkById_def GetStreamSinkByIndex_def new_CustomVideoRenderer_def
      CustomVideoRenderer_CheckShutdown_def SUCCEEDED_def)

subsection \<open>The catalog of media types\<close>

text \<open>
  Claim C9. On a stream sink that is not shut down, \<^verbatim>\<open>GetMediaTypeCount\<close> reports the
  fixed count (the length of the catalog), \<^verbatim>\<open>GetMediaTypeByIndex\<close> fails with
  \<^verbatim>\<open>MF_E_NO_MORE_TYPES\<close> exactly when the index is at least that count, and for every
  smaller index it returns a media type with major type Video and the subtype that the
  catalog holds at that index.
\<close>

theorem GetMediaTypeByIndex_catalog:
  assumes "\<not> m_IsShutdown s"
  shows "GetMediaTypeCount s OutPtr = (S_OK, Some s_dwNumVideoFormats)
   \<and> unat s_dwNumVideoFormats = length s_pVideoFormats
   \<and> (fst (GetMediaTypeByIndex s dwIndex OutPtr) = MF_E_NO_MORE_TYPES) = (dwIndex \<ge> s_dwNumVideoFormats)
   \<and> (dwIndex < s_dwNumVideoFormats \<longrightarrow>
        GetMediaTypeByIndex s dwIndex OutPtr
          = (S_OK, Some \<lparr> MF_MT_MAJOR_TYPE = Some MFMediaType_Video,
                          MF_MT_SUBTYPE = Some (s_pVideoFormats ! unat dwIndex) \<rparr>))"
  using assms
  by (auto simp: GetMediaTypeCount_def GetMediaTypeByIndex_def CheckShutdown_def
      s_dwNumVideoFormats_eq s_pVideoFormats_def)

theorem GetMediaTypeByIndex_catalog_witness:
  "\<not> m_IsShutdown new_CustomVideoStreamSink
   \<and> GetMediaTypeCount new_CustomVideoStreamSink OutPtr = (S_OK, Some 19)
   \<and> fst (GetMediaTypeByIndex new_CustomVideoStreamSink 19 OutPtr) = MF_E_NO_MORE_TYPES
   \<and> GetMediaTypeByIndex new_CustomVideoStreamSink 6 OutPtr
        = (S_OK, Some \<lparr> MF_MT_MAJOR_TYPE = Some MFMediaType_Video,
                        MF_MT_SUBTYPE = Some MFVideoFormat_RGB24 \<rparr>)"
proof -
  have live: "\<not> m_IsShutdown new_CustomVideoStreamSink"
    by (simp add: new_CustomVideoStreamSink_def)
  show ?thesis
    using live GetMediaTypeByIndex_catalog [OF live, of 19] GetMediaTypeByIndex_catalog [OF live, of 6]
    by (simp add: s_dwNumVideoFormats_eq s_pVideoFormats_def)
qed

subsection \<open>Renegotiation of the media type\<close>

text \<open>
  Claim C5. \<^verbatim>\<open>SetCurrentMediaType\<close> with a supported candidate on a sink that is not
  shut down replaces the current type and recomputes the bytes per pixel (3/2 for NV12,
  YV12, IYUV, YVU9 and I420; 2/1 for YUY2, RGB555, RGB565, UYVY, YVYU and V216; 3/1 for
  RGB24; 4/1 for RGB32; 5/4 for v410; 1/1 for the rest of the catalog) and takes the
  surface format of the subtype where the mapping has one. In \<open>State_Started\<close> and
  \<open>State_Paused\<close> it then calls \<^verbatim>\<open>Flush\<close> on the sink so changed, whose state is still
  what it was, and returns what \<^verbatim>\<open>Flush\<close> returns: whatever method the call reaches,
  and with the \<^verbatim>\<open>Flush\<close> of this class the result \<^verbatim>\<open>S_OK\<close> and that sink. In every other
  state (the operation is allowed in all of them) it sets the state to \<open>State_Ready\<close>
  and returns \<^verbatim>\<open>S_OK\<close>, calling nothing.
\<close>

theorem SetCurrentMediaType_state:
  assumes "\<not> m_IsShutdown s" "g \<in> set s_pVideoFormats" "MF_MT_SUBTYPE mt = Some g"
  shows
   "let ratio =
          (if g \<in> {MFVideoFormat_NV12, MFVideoFormat_YV12, MFVideoFormat_IYUV,
                    MFVideoFormat_YVU9, MFVideoFormat_I420}
           then \<lparr> Numerator = 3, Denominator = 2 \<rparr>
           else if g \<in> {MFVideoFormat_YUY2, MFVideoFormat_RGB555, MFVideoFormat_RGB565,
                         MFVideoFormat_UYVY, MFVideoFormat_YVYU, MEDIASUBTYPE_V216}
           then \<lparr> Numerator = 2, Denominator = 1 \<rparr>
           else if g = MFVideoFormat_RGB24 then \<lparr> Numerator = 3, Denominator = 1 \<rparr>
           else if g = MFVideoFormat_RGB32 then \<lparr> Numerator = 4, Denominator = 1 \<rparr>
           else if g = MFVideoFormat_v410 then \<lparr> Numerator = 5, Denominator = 4 \<rparr>
           else \<lparr> Numerator = 1, Denominator = 1 \<rparr>);
        s3 = (case map_of s_DXGIFormatMapping g of
                None \<Rightarrow> s
              | Some f \<Rightarrow> s\<lparr> m_dxgiFormat := f \<rparr>)
               \<lparr> m_pCurrentType := Some mt, m_imageBytesPP := ratio \<rparr>
    in m_state s3 = m_state s
       \<and> (if m_state s = State_Started \<or> m_state s = State_Paused
           then SetCurrentMediaType_calling flush s (Some mt) = flush s3
                \<and> SetCurrentMediaType s (Some mt) = (S_OK, s3)
           else SetCurrentMediaType_calling flush s (Some mt) = (S_OK, s3\<lparr> m_state := State_Ready \<rparr>)
                \<and> SetCurrentMediaType s (Some mt) = (S_OK, s3\<lparr> m_state := State_Ready \<rparr>))"
proof -
  have sup: "IsMediaTypeSupported s (Some mt)
      = (S_OK, case map_of s_DXGIFormatMapping g of None \<Rightarrow> s | Some f \<Rightarrow> s\<lparr> m_dxgiFormat := f \<rparr>)"
    by (rule supported_subtype_IsMediaTypeSupported [OF assms])
  have ratio: "SetCurrentMediaType_bytesPP g =
          (if g \<in> {MFVideoFormat_NV12, MFVideoFormat_YV12, MFVideoFormat_IYUV,
                    MFVideoFormat_YVU9, MFVideoFormat_I420}
           then \<lparr> Numerator = 3, Denominator = 2 \<rparr>
           else if g \<in> {MFVideoFormat_YUY2, MFVideoFormat_RGB555, MFVideoFormat_RGB565,
                         MFVideoFormat_UYVY, MFVideoFormat_YVYU, MEDIASUBTYPE_V216}
           then \<lparr> Numerator = 2, Denominator = 1 \<rparr>
           else if g = MFVideoFormat_RGB24 then \<lparr> Numerator = 3, Denominator = 1 \<rparr>
           else if g = MFVideoFormat_RGB32 then \<lparr> Numerator = 4, Denominator = 1 \<rparr>
           else if g = MFVideoFormat_v410 then \<lparr> Numerator = 5, Denominator = 4 \<rparr>
           else \<lparr> Numerator = 1, Denominator = 1 \<rparr>)"
    by (simp add: SetCurrentMediaType_bytesPP_def)
  have body: "SetCurrentMediaType_calling f s (Some mt) =
      (let s3 = (case map_of s_DXGIFormatMapping g of None \<Rightarrow> s | Some f \<Rightarrow> s\<lparr> m_dxgiFormat := f \<rparr>)
                  \<lparr> m_pCurrentType := Some mt, m_imageBytesPP := SetCurrentMediaType_bytesPP g \<rparr>
       in if m_state s = State_Started \<or> m_state s = State_Paused then f s3
          else (S_OK, s3\<lparr> m_state := State_Ready \<rparr>))" for f
    using assms
    by (auto simp: SetCurrentMediaType_calling_def sup CheckShutdown_def
        ValidateOperation_SetMediaType GetGUID_SUBTYPE_def Let_def split: option.split)
  show ?thesis
    unfolding SetCurrentMediaType_def body ratio [symmetric]
    by (simp add: Flush_def Let_def split: option.split)
qed

theorem SetCurrentMediaType_state_witness:
  "\<not> m_IsShutdown startedSink
   \<and> \<not> m_IsShutdown stoppedSink
   \<and> MFVideoFormat_RGB32 \<in> set s_pVideoFormats
   \<and> MF_MT_SUBTYPE (videoType MFVideoFormat_RGB32) = Some MFVideoFormat_RGB32
   \<and> SetCurrentMediaType_calling rejectingFlush startedSink (Some (videoType MFVideoFormat_RGB32))
       = (E_FAIL, startedSink\<lparr> m_dxgiFormat := DXGI_FORMAT_B8G8R8X8_UNORM,
                                m_pCurrentType := Some (videoType MFVideoFormat_RGB32),
                                m_imageBytesPP := \<lparr> Numerator = 4, Denominator = 1 \<rparr> \<rparr>)
   \<and> SetCurrentMediaType startedSink (Some (videoType MFVideoFormat_RGB32))
       = (S_OK, startedSink\<lparr> m_dxgiFormat := DXGI_FORMAT_B8G8R8X8_UNORM,
                              m_pCurrentType := Some (videoType MFVideoFormat_RGB32),
                              m_imageBytesPP := \<lparr> Numerator = 4, Denominator = 1 \<rparr> \<rparr>)
   \<and> SetCurrentMediaType_calling rejectingFlush stoppedSink (Some (videoType MFVideoFormat_RGB32))
       = (S_OK, stoppedSink\<lparr> m_dxgiFormat := DXGI_FORMAT_B8G8R8X8_UNORM,
                              m_pCurrentType := Some (videoType MFVideoFormat_RGB32),
                              m_imageBytesPP := \<lparr> Numerator = 4, Denominator = 1 \<rparr>,
                              m_state := State_Ready \<rparr>)"
proof -
  have a: "\<not> m_IsShutdown startedSink" and a': "\<not> m_IsShutdown stoppedSink"
    by (simp_all add: stoppedSink_def servedSink_def requestedSink_def startedSink_fields)
  have b: "MFVideoFormat_RGB32 \<in> set s_pVideoFormats"
    by (simp add: s_pVideoFormats_def)
  have c: "MF_MT_SUBTYPE (videoType MFVideoFormat_RGB32) = Some MFVideoFormat_RGB32"
    by (simp add: videoType_def)
  have st: "m_state startedSink = State_Started" "m_state stoppedSink = State_Stopped"
    by (simp_all add: stoppedSink_def startedSink_fields)
  note started = SetCurrentMediaType_state [OF a b c, of rejectingFlush]
  note stopped = SetCurrentMediaType_state [OF a' b c, of rejectingFlush]
  have 1: "SetCurrentMediaType_calling rejectingFlush startedSink (Some (videoType MFVideoFormat_RGB32))
       = (E_FAIL, startedSink\<lparr> m_dxgiFormat := DXGI_FORMAT_B8G8R8X8_UNORM,
                                m_pCurrentType := Some (videoType MFVideoFormat_RGB32),
                                m_imageBytesPP := \<lparr> Numerator = 4, Denominator = 1 \<rparr> \<rparr>)"
    and 2: "SetCurrentMediaType startedSink (Some (videoType MFVideoFormat_RGB32))
       = (S_OK, startedSink\<lparr> m_dxgiFormat := DXGI_FORMAT_B8G8R8X8_UNORM,
                              m_pCurrentType := Some (videoType MFVideoFormat_RGB32),
                              m_imageBytesPP := \<lparr> Numerator = 4, Denominator = 1 \<rparr> \<rparr>)"
    using started by (simp_all add: st Let_def s_DXGIFormatMapping_def rejectingFlush_def)
  have 3: "SetCurrentMediaType_calling rejectingFlush stoppedSink (Some (videoType MFVideoFormat_RGB32))
       = (S_OK, stoppedSink\<lparr> m_dxgiFormat := DXGI_FORMAT_B8G8R8X8_UNORM,
                              m_pCurrentType := Some (videoType MFVideoFormat_RGB32),
                              m_imageBytesPP := \<lparr> Numerator = 4, Denominator = 1 \<rparr>,
                              m_state := State_Ready \<rparr>)"
    using stopped by (simp add: st Let_def s_DXGIFormatMapping_def)
  from a a' b c 1 2 3 show ?thesis by blast
qed

subsection \<open>Start and the first admission tick\<close>

text \<open>
  Claim C7, as stated: \<^verbatim>\<open>Start\<close> from a state in which it is allowed succeeds, and
  after one admission tick the counter is 3 and exactly three request-sample events have
  been queued. The count of events fails on a sink with requests outstanding. A new sink
  that is negotiated, started, asked for three samples by the first tick, given one
  sample, stopped and negotiated again is in \<open>State_Ready\<close> with two requests outstanding;
  \<^verbatim>\<open>Start\<close> and one admission tick then queue the stream-started event and one
  request-sample event.
\<close>

theorem Start_with_requests_outstanding:
  "Start readySink 0 = Some (S_OK, startedSink)
   \<and> RequestSamples startedSink = Some (S_OK, requestedSink)
   \<and> ProcessSample requestedSink (Some goodSample) = Some (S_OK, servedSink)
   \<and> Stop servedSink = (S_OK, stoppedSink)
   \<and> SetCurrentMediaType stoppedSink (Some (videoType MFVideoFormat_NV12)) = (S_OK, readyAgainSink)
   \<and> m_state readyAgainSink = State_Ready
   \<and> \<not> m_IsShutdown readyAgainSink
   \<and> ValidateOperation (m_state readyAgainSink) OpStart = S_OK
   \<and> Start readyAgainSink 0
       = Some (S_OK,
           readyAgainSink
             \<lparr> m_state := State_Started,
               m_pEventQueue :=
                 Some [startedEvent, requestSampleEvent, requestSampleEvent, requestSampleEvent,
                       startedEvent],
               scheduledWorkItems := 3 \<rparr>)
   \<and> RequestSamples
        (readyAgainSink
           \<lparr> m_state := State_Started,
             m_pEventQueue :=
               Some [startedEvent, requestSampleEvent, requestSampleEvent, requestSampleEvent,
                     startedEvent],
             scheduledWorkItems := 3 \<rparr>)
       = Some (S_OK,
           readyAgainSink
             \<lparr> m_state := State_Started,
               m_cOutstandingSampleRequests := 3,
               m_pEventQueue :=
                 Some [startedEvent, requestSampleEvent, requestSampleEvent, requestSampleEvent,
                       startedEvent, requestSampleEvent],
               scheduledWorkItems := 4 \<rparr>)"
  by (simp add: readyAgainSink_def stoppedSink_def servedSink_def requestedSink_def
      startedSink_fields readySink_fields
      Start_def Stop_def ValidateOperation_def ValidStateMatrix_def CheckShutdown_def SUCCEEDED_def
      QueueEvent_def QueueRequest_def RequestSamples_def NeedMoreSamples_def
      SAMPLE_QUEUE_HIWATER_THRESHOLD_def ProcessSample_def goodSample_def
      SetCurrentMediaType_def SetCurrentMediaType_calling_def IsMediaTypeSupported_def
      GetGUID_SUBTYPE_def videoType_def s_pVideoFormats_def s_DXGIFormatMapping_def
      SetCurrentMediaType_bytesPP_def Flush_def startedEvent_def requestSampleEvent_def Let_def)

text \<open>
  Claim C7, amended: \<^verbatim>\<open>Start\<close> on a sink that is not shut down, from a state in which
  the matrix allows it, succeeds, sets the state to \<open>State_Started\<close>, queues the
  stream-started event, schedules a work item for the admission loop and changes
  nothing else. The admission tick that follows succeeds; with \<open>c\<close> requests outstanding
  at \<^verbatim>\<open>Start\<close> it leaves the counter at 3 when \<open>c < 3\<close> and as it is otherwise, has queued
  exactly \<open>3 - c\<close> request-sample events after the stream-started event (none when
  \<open>c \<ge> 3\<close>, and three when no request was outstanding), and schedules the next tick.
\<close>

theorem Start_then_tick:
  assumes "ValidateOperation (m_state s) OpStart = S_OK"
    and "\<not> m_IsShutdown s"
    and "m_pEventQueue s = Some q"
  shows "Start s t
        = Some (S_OK, s\<lparr> m_state := State_Started,
                         m_pEventQueue := Some (q @ [startedEvent]),
                         scheduledWorkItems := Suc (scheduledWorkItems s) \<rparr>)
     \<and> RequestSamples
          (s\<lparr> m_state := State_Started,
              m_pEventQueue := Some (q @ [startedEvent]),
              scheduledWorkItems := Suc (scheduledWorkItems s) \<rparr>)
        = Some (S_OK,
            s\<lparr> m_state := State_Started,
               m_cOutstandingSampleRequests :=
                 (if m_cOutstandingSampleRequests s < 3 then 3 else m_cOutstandingSampleRequests s),
               m_pEventQueue :=
                 Some (q @ startedEvent #
                         replicate (3 - unat (m_cOutstandingSampleRequests s)) requestSampleEvent),
               scheduledWorkItems := Suc (Suc (scheduledWorkItems s)) \<rparr>)"
proof -
  let ?s1 = "s\<lparr> m_state := State_Started, m_pEventQueue := Some (q @ [startedEvent]),
                 scheduledWorkItems := Suc (scheduledWorkItems s) \<rparr>"
  have st: "Start s t = Some (S_OK, ?s1)"
    by (rule Start_allowed [OF assms])
  have live: "\<not> m_IsShutdown ?s1" and queue: "m_pEventQueue ?s1 = Some (q @ [startedEvent])"
    using assms(2) by simp_all
  from RequestSamples_loop_tops_up [OF live queue, of S_OK]
  obtain hr' where "RequestSamples_loop ?s1 S_OK =
     Some (hr', ?s1\<lparr> m_cOutstandingSampleRequests :=
                        (if m_cOutstandingSampleRequests ?s1 < 3 then 3 else m_cOutstandingSampleRequests ?s1),
                      m_pEventQueue :=
                        Some ((q @ [startedEvent]) @
                              replicate (3 - unat (m_cOutstandingSampleRequests ?s1)) requestSampleEvent) \<rparr>)"
    by blast
  then have "RequestSamples ?s1 =
     Some (S_OK, s\<lparr> m_state := State_Started,
               m_cOutstandingSampleRequests :=
                 (if m_cOutstandingSampleRequests s < 3 then 3 else m_cOutstandingSampleRequests s),
               m_pEventQueue :=
                 Some (q @ startedEvent #
                         replicate (3 - unat (m_cOutstandingSampleRequests s)) requestSampleEvent),
               scheduledWorkItems := Suc (Suc (scheduledWorkItems s)) \<rparr>)"
    by (simp add: RequestSamples_def QueueRequest_def)
  with st show ?thesis by simp
qed

theorem Start_then_tick_witness:
  "ValidateOperation (m_state readySink) OpStart = S_OK
   \<and> \<not> m_IsShutdown readySink
   \<and> m_pEventQueue readySink = Some []
   \<and> m_cOutstandingSampleRequests readySink = 0
   \<and> Start readySink 0 = Some (S_OK, startedSink)
   \<and> m_state startedSink = State_Started
   \<and> RequestSamples startedSink = Some (S_OK, requestedSink)
   \<and> m_cOutstandingSampleRequests requestedSink = 3
   \<and> m_pEventQueue requestedSink
       = Some [startedEvent, requestSampleEvent, requestSampleEvent, requestSampleEvent]"
proof -
  have a: "ValidateOperation (m_state readySink) OpStart = S_OK"
    by (simp add: readySink_fields ValidateOperation_def ValidStateMatrix_def)
  have b: "\<not> m_IsShutdown readySink" and c: "m_pEventQueue readySink = Some []"
    and d: "m_cOutstandingSampleRequests readySink = 0"
    by (simp_all add: readySink_fields)
  have s1: "readySink\<lparr> m_state := State_Started, m_pEventQueue := Some ([] @ [startedEvent]),
                        scheduledWorkItems := Suc (scheduledWorkItems readySink) \<rparr> = startedSink"
    by (simp add: startedSink_def readySink_fields)
  have s2: "readySink\<lparr> m_state := State_Started,
               m_cOutstandingSampleRequests :=
                 (if m_cOutstandingSampleRequests readySink < 3 then 3
                  else m_cOutstandingSampleRequests readySink),
               m_pEventQueue :=
                 Some ([] @ startedEvent #
                         replicate (3 - unat (m_cOutstandingSampleRequests readySink)) requestSampleEvent),
               scheduledWorkItems := Suc (Suc (scheduledWorkItems readySink)) \<rparr> = requestedSink"
    by (simp add: requestedSink_def startedSink_def readySink_fields numeral_3_eq_3)
  note tick = Start_then_tick [OF a b c, of 0, unfolded s1 s2]
  have e: "m_state startedSink = State_Started" "m_cOutstandingSampleRequests requestedSink = 3"
    "m_pEventQueue requestedSink
       = Some [startedEvent, requestSampleEvent, requestSampleEvent, requestSampleEvent]"
    by (simp_all add: requestedSink_def startedSink_fields)
  from a b c d tick e show ?thesis by blast
qed

subsection \<open>The bound on the outstanding requests\<close>

text \<open>
  Claim C2. In every execution of \<^verbatim>\<open>Start\<close>, \<^verbatim>\<open>ProcessSample\<close> and admission ticks the
  counter of outstanding requests stays between 0 and the threshold 3. The code does
  not keep the bound: \<^verbatim>\<open>ProcessSample\<close> decrements the counter without a test (and
  outside the critical section that its sibling methods enter). On a new sink that is
  negotiated and started, where the matrix allows \<^verbatim>\<open>ProcessSample\<close> and no request is
  outstanding yet, a sample takes the counter from 0 to \<open>2^32 - 1\<close>.
\<close>

theorem sample_before_request_wraps_counter:
  "SetCurrentMediaType new_CustomVideoStreamSink (Some (videoType MFVideoFormat_NV12))
     = (S_OK, readySink)
   \<and> Start readySink 0 = Some (S_OK, startedSink)
   \<and> m_cOutstandingSampleRequests startedSink = 0
   \<and> ValidateOperation (m_state startedSink) OpProcessSample = S_OK
   \<and> ProcessSample startedSink (Some goodSample)
       = Some (S_OK, startedSink\<lparr> m_count := 1, m_cOutstandingSampleRequests := 4294967295 \<rparr>)
   \<and> \<not> ((4294967295 :: DWORD) \<le> SAMPLE_QUEUE_HIWATER_THRESHOLD)"
  by (simp add: startedSink_fields readySink_fields new_CustomVideoStreamSink_def
      Start_def ValidateOperation_def ValidStateMatrix_def CheckShutdown_def SUCCEEDED_def
      QueueEvent_def QueueRequest_def startedEvent_def
      SAMPLE_QUEUE_HIWATER_THRESHOLD_def ProcessSample_def goodSample_def
      SetCurrentMediaType_def SetCurrentMediaType_calling_def IsMediaTypeSupported_def
      GetGUID_SUBTYPE_def videoType_def s_pVideoFormats_def s_DXGIFormatMapping_def
      SetCurrentMediaType_bytesPP_def Let_def)

subsection \<open>After shutdown\<close>

text \<open>
  Claim C3, as stated: after \<^verbatim>\<open>Shutdown\<close> on the stream sink every later operation on
  it, \<^verbatim>\<open>Pause\<close> among them, returns \<^verbatim>\<open>MF_E_SHUTDOWN\<close>. It fails: \<^verbatim>\<open>Pause\<close> consults the
  matrix only, so on a sink shut down in \<open>State_Ready\<close> it returns \<^verbatim>\<open>S_OK\<close> and sets the
  state to \<open>State_Paused\<close>.
\<close>

theorem Pause_after_Shutdown_accepted:
  "m_IsShutdown (snd (Shutdown readySink))
   \<and> Pause (snd (Shutdown readySink))
       = (S_OK, (snd (Shutdown readySink))\<lparr> m_state := State_Paused \<rparr>)"
  by (simp add: Shutdown_def readySink_fields Pause_def
      ValidateOperation_def ValidStateMatrix_def SUCCEEDED_def Let_def)

text \<open>
  Claim C3, amended: \<^verbatim>\<open>Shutdown\<close> can be called again, returns \<^verbatim>\<open>MF_E_SHUTDOWN\<close> each
  time and changes nothing the second time. On a stream sink that is shut down, the
  methods that check the flag (\<^verbatim>\<open>SetCurrentMediaType\<close>, \<^verbatim>\<open>IsMediaTypeSupported\<close>,
  \<^verbatim>\<open>GetCurrentMediaType\<close>, \<^verbatim>\<open>GetMediaTypeByIndex\<close>, \<^verbatim>\<open>GetMediaTypeCount\<close>, \<^verbatim>\<open>QueueEvent\<close>)
  return \<^verbatim>\<open>MF_E_SHUTDOWN\<close> and change nothing. The lifecycle calls are refused where they
  enter: on a media sink that is shut down, the clock callbacks \<^verbatim>\<open>OnClockPause\<close>,
  \<^verbatim>\<open>OnClockStop\<close>, \<^verbatim>\<open>OnClockRestart\<close> and \<^verbatim>\<open>OnClockStart\<close> return \<^verbatim>\<open>MF_E_SHUTDOWN\<close> and do
  not reach the stream sink.
\<close>

theorem after_Shutdown:
  assumes "m_IsShutdown s" and "sink_IsShutdown r"
  shows "Shutdown s = (MF_E_SHUTDOWN, snd (Shutdown s)) \<and> m_IsShutdown (snd (Shutdown s))
   \<and> Shutdown (snd (Shutdown s0)) = Shutdown s0
   \<and> SetCurrentMediaType s (Some mt) = (MF_E_SHUTDOWN, s)
   \<and> IsMediaTypeSupported s pMediaType = (MF_E_SHUTDOWN, s)
   \<and> GetCurrentMediaType s OutPtr = (MF_E_SHUTDOWN, None)
   \<and> GetMediaTypeByIndex s dwIndex OutPtr = (MF_E_SHUTDOWN, None)
   \<and> GetMediaTypeCount s OutPtr = (MF_E_SHUTDOWN, None)
   \<and> QueueEvent s met g hrStatus = Some (MF_E_SHUTDOWN, s)
   \<and> OnClockPause r = Some (MF_E_SHUTDOWN, r)
   \<and> OnClockStop r = Some (MF_E_SHUTDOWN, r)
   \<and> OnClockRestart r = Some (MF_E_SHUTDOWN, r)
   \<and> OnClockStart r t = Some (MF_E_SHUTDOWN, r)
   \<and> fst (CustomVideoRenderer_Shutdown r) = MF_E_SHUTDOWN"
  using assms
  by (simp add: Shutdown_def SetCurrentMediaType_def SetCurrentMediaType_calling_def IsMediaTypeSupported_def GetCurrentMediaType_def
      GetMediaTypeByIndex_def GetMediaTypeCount_def QueueEvent_def OnClockPause_def OnClockStop_def
      OnClockRestart_def OnClockStart_def CustomVideoRenderer_Shutdown_def CheckShutdown_def
      CustomVideoRenderer_CheckShutdown_def SUCCEEDED_def Let_def split: option.split)

theorem after_Shutdown_witness:
  "m_IsShutdown (snd (Shutdown readySink))
   \<and> sink_IsShutdown (snd (CustomVideoRenderer_Shutdown new_CustomVideoRenderer))
   \<and> fst (Shutdown (snd (Shutdown readySink))) = MF_E_SHUTDOWN
   \<and> fst (SetCurrentMediaType (snd (Shutdown readySink)) (Some (videoType MFVideoFormat_NV12)))
       = MF_E_SHUTDOWN
   \<and> GetCurrentMediaType (snd (Shutdown readySink)) OutPtr = (MF_E_SHUTDOWN, None)
   \<and> map_option fst (OnClockPause (snd (CustomVideoRenderer_Shutdown new_CustomVideoRenderer)))
       = Some MF_E_SHUTDOWN
   \<and> map_option fst (OnClockStart (snd (CustomVideoRenderer_Shutdown new_CustomVideoRenderer)) 0)
       = Some MF_E_SHUTDOWN"
proof -
  have a: "m_IsShutdown (snd (Shutdown readySink))"
    by (simp add: Shutdown_def)
  have b: "sink_IsShutdown (snd (CustomVideoRenderer_Shutdown new_CustomVideoRenderer))"
    by (simp add: CustomVideoRenderer_Shutdown_def Let_def split: option.split)
  note sd = after_Shutdown [OF a b, of readySink "videoType MFVideoFormat_NV12" None 0
      MEStreamSinkStarted GUID_NULL S_OK 0]
  have 1: "fst (Shutdown (snd (Shutdown readySink))) = MF_E_SHUTDOWN"
    using arg_cong [OF sd [THEN conjunct1], of fst] by simp
  have 2: "fst (SetCurrentMediaType (snd (Shutdown readySink)) (Some (videoType MFVideoFormat_NV12)))
       = MF_E_SHUTDOWN"
    using sd by simp
  have 3: "GetCurrentMediaType (snd (Shutdown readySink)) OutPtr = (MF_E_SHUTDOWN, None)"
    using sd by simp
  have 4: "map_option fst (OnClockPause (snd (CustomVideoRenderer_Shutdown new_CustomVideoRenderer)))
       = Some MF_E_SHUTDOWN"
    using sd by simp
  have 5: "map_option fst (OnClockStart (snd (CustomVideoRenderer_Shutdown new_CustomVideoRenderer)) 0)
       = Some MF_E_SHUTDOWN"
    using sd by simp
  from a b 1 2 3 4 5 show ?thesis by blast
qed

subsection \<open>The admission tick after shutdown\<close>

text \<open>
  Claim C4, as stated: an admission tick that runs after the shutdown flag is set
  never increments the counter, never queues a request-sample event and never schedules
  another tick. The last part fails: \<^verbatim>\<open>RequestSamples\<close> calls \<^verbatim>\<open>QueueRequest\<close> after the
  loop whatever the loop did, so the tick on a sink that is shut down and has no work
  item pending leaves one work item scheduled.
\<close>

theorem tick_after_shutdown_reschedules:
  "m_IsShutdown (snd (Shutdown new_CustomVideoStreamSink))
   \<and> scheduledWorkItems (snd (Shutdown new_CustomVideoStreamSink)) = 0
   \<and> map_option (\<lambda>(hr, s). scheduledWorkItems s)
        (RequestSamples (snd (Shutdown new_CustomVideoStreamSink))) = Some 1"
  by (simp add: Shutdown_def new_CustomVideoStreamSink_def RequestSamples_def CheckShutdown_def
      QueueRequest_def NeedMoreSamples_def SAMPLE_QUEUE_HIWATER_THRESHOLD_def)

text \<open>
  Claim C4, amended: an admission tick that runs after the shutdown flag is set returns,
  leaves the counter, the event queue and every other member as they are (no increment,
  no request-sample event), and schedules one more work item.
\<close>

theorem RequestSamples_after_shutdown:
  assumes "m_IsShutdown s"
  shows "RequestSamples s = Some (S_OK, s\<lparr> scheduledWorkItems := Suc (scheduledWorkItems s) \<rparr>)"
  using assms
  by (simp add: RequestSamples_def CheckShutdown_def QueueRequest_def)

theorem RequestSamples_after_shutdown_witness:
  "m_IsShutdown (snd (Shutdown readySink))
   \<and> RequestSamples (snd (Shutdown readySink))
       = Some (S_OK, (snd (Shutdown readySink))\<lparr> scheduledWorkItems := 1 \<rparr>)"
proof -
  have sd: "m_IsShutdown (snd (Shutdown readySink))"
    by (simp add: Shutdown_def)
  have "scheduledWorkItems (snd (Shutdown readySink)) = 0"
    by (simp add: Shutdown_def readySink_fields)
  then show ?thesis
    using sd RequestSamples_after_shutdown [OF sd] by simp
qed

subsection \<open>Negotiation and query of the media type\<close>

text \<open>
  Claim C6, as stated: after a successful negotiation the bytes per pixel match the
  documented table, in which every accepted subtype outside the named families has the
  fail-safe ratio 1/1. It fails for RGB565 (and RGB555): the subtype is accepted, is in
  no named family, and the code gives it the ratio 2/1.
\<close>

theorem RGB565_ratio_not_documented:
  "MFVideoFormat_RGB565 \<in> set s_pVideoFormats
   \<and> fst (SetCurrentMediaType new_CustomVideoStreamSink (Some (videoType MFVideoFormat_RGB565))) = S_OK
   \<and> m_imageBytesPP (snd (SetCurrentMediaType new_CustomVideoStreamSink (Some (videoType MFVideoFormat_RGB565))))
       = \<lparr> Numerator = 2, Denominator = 1 \<rparr>
   \<and> documentedRatio MFVideoFormat_RGB565 = \<lparr> Numerator = 1, Denominator = 1 \<rparr>
   \<and> m_imageBytesPP (snd (SetCurrentMediaType new_CustomVideoStreamSink (Some (videoType MFVideoFormat_RGB565))))
       \<noteq> documentedRatio MFVideoFormat_RGB565"
  by (simp add: SetCurrentMediaType_def SetCurrentMediaType_calling_def new_CustomVideoStreamSink_def CheckShutdown_def
      ValidateOperation_def ValidStateMatrix_def IsMediaTypeSupported_def GetGUID_SUBTYPE_def
      videoType_def s_pVideoFormats_def s_DXGIFormatMapping_def SetCurrentMediaType_bytesPP_def Let_def
      documentedRatio_def family_420_def family_422_packed_def)

text \<open>
  Claim C6, amended: for every subtype of the catalog, on a sink that is not shut down,
  \<^verbatim>\<open>SetCurrentMediaType\<close> succeeds and \<^verbatim>\<open>GetCurrentMediaType\<close> then returns the negotiated
  type (so its subtype is the negotiated one), and the bytes per pixel are 2/1 for the
  16-bit RGB subtypes RGB555 and RGB565 and the ratio of the documented table for every
  other subtype.
\<close>

theorem negotiate_then_query:
  assumes "\<not> m_IsShutdown s" "g \<in> set s_pVideoFormats" "MF_MT_SUBTYPE mt = Some g"
  shows "fst (SetCurrentMediaType s (Some mt)) = S_OK
   \<and> GetCurrentMediaType (snd (SetCurrentMediaType s (Some mt))) OutPtr = (S_OK, Some mt)
   \<and> m_imageBytesPP (snd (SetCurrentMediaType s (Some mt)))
       = (if g = MFVideoFormat_RGB555 \<or> g = MFVideoFormat_RGB565
          then \<lparr> Numerator = 2, Denominator = 1 \<rparr>
          else documentedRatio g)"
proof -
  let ?s' = "snd (SetCurrentMediaType s (Some mt))"
  have eq: "SetCurrentMediaType s (Some mt) =
    (let s3 = (snd (IsMediaTypeSupported s (Some mt)))
                \<lparr> m_pCurrentType := Some mt, m_imageBytesPP := SetCurrentMediaType_bytesPP g \<rparr>
     in if m_state s = State_Started \<or> m_state s = State_Paused then Flush s3
        else (S_OK, s3\<lparr> m_state := State_Ready \<rparr>))"
    by (rule SetCurrentMediaType_supported [OF assms])
  have sup: "IsMediaTypeSupported s (Some mt)
      = (S_OK, case map_of s_DXGIFormatMapping g of None \<Rightarrow> s | Some f \<Rightarrow> s\<lparr> m_dxgiFormat := f \<rparr>)"
    by (rule supported_subtype_IsMediaTypeSupported [OF assms])
  have ok: "fst (SetCurrentMediaType s (Some mt)) = S_OK"
    by (simp add: eq Flush_def Let_def)
  have ty: "m_pCurrentType ?s' = Some mt" and live: "\<not> m_IsShutdown ?s'"
    and bpp: "m_imageBytesPP ?s' = SetCurrentMediaType_bytesPP g"
    using assms(1) by (auto simp: eq sup Flush_def Let_def split: option.split)
  have "GetCurrentMediaType ?s' OutPtr = (S_OK, Some mt)"
    using ty live by (simp add: GetCurrentMediaType_def CheckShutdown_def SUCCEEDED_def Let_def)
  with ok bpp bytesPP_documented [OF assms(2)] show ?thesis by simp
qed

theorem negotiate_then_query_witness:
  "\<not> m_IsShutdown new_CustomVideoStreamSink
   \<and> MFVideoFormat_NV12 \<in> set s_pVideoFormats
   \<and> MF_MT_SUBTYPE (videoType MFVideoFormat_NV12) = Some MFVideoFormat_NV12
   \<and> fst (SetCurrentMediaType new_CustomVideoStreamSink (Some (videoType MFVideoFormat_NV12))) = S_OK
   \<and> GetCurrentMediaType readySink OutPtr = (S_OK, Some (videoType MFVideoFormat_NV12))
   \<and> m_imageBytesPP readySink = \<lparr> Numerator = 3, Denominator = 2 \<rparr>"
proof -
  have a: "\<not> m_IsShutdown new_CustomVideoStreamSink"
    by (simp add: new_CustomVideoStreamSink_def)
  have b: "MFVideoFormat_NV12 \<in> set s_pVideoFormats"
    by (simp add: s_pVideoFormats_def)
  have c: "MF_MT_SUBTYPE (videoType MFVideoFormat_NV12) = Some MFVideoFormat_NV12"
    by (simp add: videoType_def)
  note rt = negotiate_then_query [OF a b c, unfolded negotiate_new]
  have "documentedRatio MFVideoFormat_NV12 = \<lparr> Numerator = 3, Denominator = 2 \<rparr>"
    by (simp add: documentedRatio_def family_420_def)
  with a b c rt show ?thesis by simp
qed

end
